theory Spec2Isabelle
  imports Complex_Main "HOL-Library.Word" "HOL-Library.Multiset"
begin

section \<open>The matrix route of gowiki (matrixRoute/matrixMultiply.go)\<close>

text \<open>
  The Go package \<^verbatim>\<open>matrixRoute\<close> serves one HTTP form: it reads two matrix sizes,
  fills two matrices with pseudorandom numbers, starts one goroutine per output cell and
  adds up what the goroutines send on a channel. This theory embeds the package function by
  function.

  Conventions of the embedding.
  \<^item> A Go \<^verbatim>\<open>string\<close> is a byte sequence: \<^typ>\<open>string\<close>, one \<^typ>\<open>char\<close> per byte.
  \<^item> A Go \<^verbatim>\<open>int\<close> is 64 bits wide. Values are kept in \<^typ>\<open>int\<close>; the range check of
    \<^verbatim>\<open>strconv.Atoi\<close> and the wrap-around of the one multiplication are written out.
  \<^item> A \<^verbatim>\<open>float64\<close> is idealised as a \<^typ>\<open>real\<close>: sums and products are exact, so
    rounding and the order dependence of floating-point addition are outside the model.
  \<^item> A run-time panic is a value of type \<open>panic\<close>; nothing is left to an unspecified
    \<open>xs ! i\<close>.
\<close>

datatype panic =
  IndexOutOfRange nat nat   \<comment> \<open>index, length\<close>
| MakeSliceLenOutOfRange
| MakeChanSizeOutOfRange

subsection \<open>Library functions the package calls\<close>

text \<open>
  \<^verbatim>\<open>strings.Replace(s, ",", " ", -1)\<close>: every occurrence of a one-byte pattern is
  replaced by a one-byte string.
\<close>

definition Replace :: "string \<Rightarrow> char \<Rightarrow> char \<Rightarrow> string" where
  "Replace s old new = map (\<lambda>c. if c = old then new else c) s"

text \<open>
  \<^verbatim>\<open>strings.Fields\<close> splits around runs of white space as \<^verbatim>\<open>unicode.IsSpace\<close> defines
  it: U+0009 to U+000D, U+0020, U+0085, U+00A0, U+1680, U+2000 to U+200A, U+2028, U+2029,
  U+202F, U+205F and U+3000. \<open>spaceWidth\<close> gives the number of bytes of the white-space
  rune at the head of a UTF-8 string, or 0 when there is none. The lead bytes C2, E1, E2 and
  E3 are never continuation bytes, so matching bytes finds the runes Go decodes.
\<close>

definition asciiSpace :: "char \<Rightarrow> bool" where
  "asciiSpace c = (c = CHR 0x09 \<or> c = CHR 0x0A \<or> c = CHR 0x0B \<or> c = CHR 0x0C
                   \<or> c = CHR 0x0D \<or> c = CHR 0x20)"

fun spaceWidth :: "string \<Rightarrow> nat" where
  "spaceWidth [] = 0"
| "spaceWidth [a] = (if asciiSpace a then 1 else 0)"
| "spaceWidth [a, b] =
     (if asciiSpace a then 1
      else if a = CHR 0xC2 \<and> (b = CHR 0x85 \<or> b = CHR 0xA0) then 2 else 0)"
| "spaceWidth (a # b # c # s) =
     (if asciiSpace a then 1
      else if a = CHR 0xC2 \<and> (b = CHR 0x85 \<or> b = CHR 0xA0) then 2
      else if a = CHR 0xE1 \<and> b = CHR 0x9A \<and> c = CHR 0x80 then 3
      else if a = CHR 0xE2 \<and> b = CHR 0x80
              \<and> ((of_char c :: nat) \<in> {0x80..0x8A} \<or> c = CHR 0xA8 \<or> c = CHR 0xA9 \<or> c = CHR 0xAF)
           then 3
      else if a = CHR 0xE2 \<and> b = CHR 0x81 \<and> c = CHR 0x9F then 3
      else if a = CHR 0xE3 \<and> b = CHR 0x80 \<and> c = CHR 0x80 then 3
      else 0)"

definition flush :: "string \<Rightarrow> string list" where
  "flush cur = (if cur = [] then [] else [cur])"

text \<open>
  \<open>FieldsFrom skip cur s\<close>: \<open>cur\<close> is the field being read, \<open>skip\<close> the number of
  bytes of a multi-byte white-space rune still to pass over.
\<close>

fun FieldsFrom :: "nat \<Rightarrow> string \<Rightarrow> string \<Rightarrow> string list" where
  "FieldsFrom skip cur [] = flush cur"
| "FieldsFrom (Suc k) cur (c # s) = FieldsFrom k cur s"
| "FieldsFrom 0 cur (c # s) =
     (if spaceWidth (c # s) = 0 then FieldsFrom 0 (cur @ [c]) s
      else flush cur @ FieldsFrom (spaceWidth (c # s) - 1) [] s)"

definition Fields :: "string \<Rightarrow> string list" where
  "Fields s = FieldsFrom 0 [] s"

text \<open>
  \<^verbatim>\<open>strconv.Atoi\<close>: an optional sign, then one or more decimal digits, and a value that
  fits 64 bits; \<open>None\<close> stands for the non-nil error (syntax or range).
\<close>

definition digitVal :: "char \<Rightarrow> nat option" where
  "digitVal c =
     (if (of_char c :: nat) \<in> {0x30..0x39} then Some (of_char c - 0x30) else None)"

fun digitsVal :: "nat \<Rightarrow> string \<Rightarrow> nat option" where
  "digitsVal n [] = Some n"
| "digitsVal n (c # s) =
     (case digitVal c of None \<Rightarrow> None | Some d \<Rightarrow> digitsVal (n * 10 + d) s)"

definition Atoi :: "string \<Rightarrow> int option" where
  "Atoi s =
     (case s of
        [] \<Rightarrow> None
      | c # r \<Rightarrow>
          (let neg = (c = CHR ''-'');
               ds = (if c = CHR ''-'' \<or> c = CHR ''+'' then r else s)
           in if ds = [] then None
              else (case digitsVal 0 ds of
                      None \<Rightarrow> None
                    | Some n \<Rightarrow>
                        (let v = (if neg then - int n else int n)
                         in if - (2 ^ 63) \<le> v \<and> v < 2 ^ 63 then Some v else None))))"

text \<open>The verb \<^verbatim>\<open>%d\<close> of package fmt: decimal digits, with a minus sign when negative.\<close>

definition digitChar :: "nat \<Rightarrow> char" where
  "digitChar d = ''0123456789'' ! d"

fun natDigits :: "nat \<Rightarrow> string" where
  "natDigits n =
     (if n < 10 then [digitChar n] else natDigits (n div 10) @ [digitChar (n mod 10)])"

definition fmtD :: "int \<Rightarrow> string" where
  "fmtD n = (if n < 0 then CHR ''-'' # natDigits (nat (- n)) else natDigits (nat n))"

text \<open>
  \<^verbatim>\<open>fmt.Sprintf\<close> for the verbs \<^verbatim>\<open>%d\<close> on an \<^verbatim>\<open>int\<close> and \<^verbatim>\<open>%s\<close> on a
  string or an \<^verbatim>\<open>error\<close>, with one argument for each verb, which is how the package
  calls it. The text around the verbs is copied. A verb that does not fit its argument
  (which fmt reports inside the output) does not occur in the package and is copied too.
\<close>

datatype arg = I int | S string

fun verb :: "char \<Rightarrow> arg \<Rightarrow> string option" where
  "verb d (I n) = (if d = CHR ''d'' then Some (fmtD n) else None)"
| "verb d (S s) = (if d = CHR ''s'' then Some s else None)"

fun Sprintf :: "string \<Rightarrow> arg list \<Rightarrow> string" where
  "Sprintf (p # d # fmt) (a # as) =
     (case (if p = CHR ''%'' then verb d a else None) of
        Some t \<Rightarrow> t @ Sprintf fmt as
      | None \<Rightarrow> p # Sprintf (d # fmt) (a # as))"
| "Sprintf fmt as = fmt"

subsection \<open>canMultiply\<close>

text \<open>A \<^verbatim>\<open>[2]int\<close> is a pair: both components always exist.\<close>

type_synonym size2 = "int \<times> int"

definition canMultiply :: "size2 \<Rightarrow> size2 \<Rightarrow> bool \<times> string" where
  "canMultiply matAsize matBsize =
     (if snd matAsize = fst matBsize then (True, '''')
      else (False,
            Sprintf ''matrix with size %d * %d cannot be multiplied with matrix of size %d * %d''
              [I (fst matAsize), I (snd matAsize), I (fst matBsize), I (snd matBsize)]))"

subsection \<open>processRequest\<close>

text \<open>
  \<^verbatim>\<open>request.Form\<close> is a \<^verbatim>\<open>map[string][]string\<close>: an association list with one entry
  for each key. Looking up a key that is absent gives the nil slice and \<^verbatim>\<open>found = false\<close>.
\<close>

type_synonym form = "(string \<times> string list) list"

type_synonym sizes = "size2 \<times> size2"   \<comment> \<open>\<^verbatim>\<open>[2][2]int\<close>\<close>

text \<open>
  \<^verbatim>\<open>matSizes[matID][idx] = intValue\<close>. \<open>matID\<close> is 0 or 1 (it ranges over a
  two-element slice literal); \<open>idx\<close> is checked against the array length 2 at run time.
\<close>

definition setAt :: "size2 \<Rightarrow> nat \<Rightarrow> int \<Rightarrow> panic + size2" where
  "setAt a idx v =
     (if idx = 0 then Inr (v, snd a)
      else if idx = 1 then Inr (fst a, v)
      else Inl (IndexOutOfRange idx 2))"

definition setSize :: "sizes \<Rightarrow> nat \<Rightarrow> nat \<Rightarrow> int \<Rightarrow> panic + sizes" where
  "setSize matSizes matID idx v =
     (if matID = 0 then
        (case setAt (fst matSizes) idx v of Inl p \<Rightarrow> Inl p | Inr a \<Rightarrow> Inr (a, snd matSizes))
      else
        (case setAt (snd matSizes) idx v of Inl p \<Rightarrow> Inl p | Inr b \<Rightarrow> Inr (fst matSizes, b)))"

text \<open>
  What a loop body hands to its loop: a panic, a \<^verbatim>\<open>return\<close> of the whole function with
  its three results, or the state for the next iteration.
\<close>

datatype 'a ctl =
  Panicked panic
| Returned sizes string bool
| Next 'a

text \<open>The loop \<^verbatim>\<open>for idx, stringValue := range sizeValues\<close>.\<close>

fun tokenLoop :: "nat \<Rightarrow> nat \<Rightarrow> string list \<Rightarrow> sizes \<Rightarrow> sizes ctl" where
  "tokenLoop matID idx [] matSizes = Next matSizes"
| "tokenLoop matID idx (stringValue # rest) matSizes =
     (case Atoi stringValue of
        None \<Rightarrow> Returned matSizes (stringValue @ '' is an invalid input'') False
      | Some intValue \<Rightarrow>
          (case setSize matSizes matID idx intValue of
             Inl p \<Rightarrow> Panicked p
           | Inr matSizes' \<Rightarrow> tokenLoop matID (Suc idx) rest matSizes'))"

definition sizeValues :: "string \<Rightarrow> string list" where
  "sizeValues userInputString = Fields (Replace userInputString (CHR '','') (CHR '' ''))"

text \<open>
  The loop \<^verbatim>\<open>for matID, matName := range []string{"matASize", "matBSize"}\<close>. The first
  element of \<open>slice\<close> is read before \<open>found\<close> is looked at.
\<close>

fun fieldLoop :: "form \<Rightarrow> (nat \<times> string) list \<Rightarrow> sizes \<Rightarrow> sizes ctl" where
  "fieldLoop frm [] matSizes = Next matSizes"
| "fieldLoop frm ((matID, matName) # rest) matSizes =
     (let found = (map_of frm matName \<noteq> None);
          slice = (case map_of frm matName of None \<Rightarrow> [] | Some vs \<Rightarrow> vs)
      in case slice of
           [] \<Rightarrow> Panicked (IndexOutOfRange 0 0)
         | userInputString # _ \<Rightarrow>
             if found \<and> length userInputString > 0 then
               (if length (sizeValues userInputString) < 2
                then Returned matSizes ''2 numbers needed, only 1 received'' False
                else (case tokenLoop matID 0 (sizeValues userInputString) matSizes of
                        Next matSizes' \<Rightarrow> fieldLoop frm rest matSizes'
                      | stop \<Rightarrow> stop))
             else Returned matSizes ''2 numbers needed, 0 received'' False)"

text \<open>The three results of \<open>processRequest\<close>, or the panic that ends it.\<close>

definition processRequest :: "form \<Rightarrow> panic + sizes \<times> string \<times> bool" where
  "processRequest frm =
     (case fieldLoop frm [(0, ''matASize''), (1, ''matBSize'')] ((0, 0), (0, 0)) of
        Next matSizes \<Rightarrow> Inr (matSizes, '''', True)
      | Returned matSizes errorMessage ok \<Rightarrow> Inr (matSizes, errorMessage, ok)
      | Panicked p \<Rightarrow> Inl p)"

subsection \<open>createMat\<close>

text \<open>
  \<^verbatim>\<open>rand.Float64()\<close> reads the process-wide source and advances it. \<open>src\<close> is the
  sequence of numbers the source yields and the state is the count \<open>k\<close> of numbers drawn
  so far. \<^verbatim>\<open>make\<close> panics on a negative length; running out of memory on a huge one is
  outside the model.
\<close>

type_synonym matrix = "real list list"

definition makeSlice :: "int \<Rightarrow> 'a \<Rightarrow> panic + 'a list" where
  "makeSlice n zero = (if n < 0 then Inl MakeSliceLenOutOfRange else Inr (replicate (nat n) zero))"

text \<open>The loop \<^verbatim>\<open>for colIdx := range mat[rowIdx]\<close>.\<close>

function fillRow :: "(nat \<Rightarrow> real) \<Rightarrow> real list \<Rightarrow> nat \<Rightarrow> nat \<Rightarrow> real list \<times> nat" where
  "fillRow src row colIdx k =
     (if colIdx < length row
      then fillRow src (row[colIdx := src k * 1000]) (Suc colIdx) (Suc k)
      else (row, k))"
  by pat_completeness auto
termination
  by (relation "measure (\<lambda>(src, row, colIdx, k). length row - colIdx)") auto

text \<open>The loop \<^verbatim>\<open>for rowIdx := range mat\<close>.\<close>

function fillMat :: "(nat \<Rightarrow> real) \<Rightarrow> int \<Rightarrow> matrix \<Rightarrow> nat \<Rightarrow> nat \<Rightarrow> panic + matrix \<times> nat" where
  "fillMat src noOfCols mat rowIdx k =
     (if rowIdx < length mat
      then (case makeSlice noOfCols 0 of
              Inl p \<Rightarrow> Inl p
            | Inr row \<Rightarrow>
                fillMat src noOfCols (mat[rowIdx := fst (fillRow src row 0 k)]) (Suc rowIdx)
                  (snd (fillRow src row 0 k)))
      else Inr (mat, k))"
  by pat_completeness auto
termination
  by (relation "measure (\<lambda>(src, noOfCols, mat, rowIdx, k). length mat - rowIdx)") auto

declare fillRow.simps [simp del] fillMat.simps [simp del]

definition createMat :: "(nat \<Rightarrow> real) \<Rightarrow> nat \<Rightarrow> size2 \<Rightarrow> panic + matrix \<times> nat" where
  "createMat src k matrixSize =
     (case makeSlice (fst matrixSize) [] of
        Inl p \<Rightarrow> Inl p
      | Inr mat \<Rightarrow> fillMat src (snd matrixSize) mat 0 k)"

subsection \<open>dotProduct\<close>

text \<open>
  The inner loop \<^verbatim>\<open>for mat1ColIdx := range mat1[mat1RowIdx]\<close>, with the three index
  expressions of its body checked in the order Go evaluates them. The indices are loop
  counters of the caller, so they are natural numbers.
\<close>

function colLoop :: "matrix \<Rightarrow> matrix \<Rightarrow> nat \<Rightarrow> nat \<Rightarrow> nat \<Rightarrow> real \<Rightarrow> panic + real" where
  "colLoop mat1 mat2 mat1RowIdx mat2ColIdx mat1ColIdx result =
     (if mat1ColIdx < length (mat1 ! mat1RowIdx) then
        (if \<not> mat1ColIdx < length mat2 then Inl (IndexOutOfRange mat1ColIdx (length mat2))
         else if \<not> mat2ColIdx < length (mat2 ! mat1ColIdx)
           then Inl (IndexOutOfRange mat2ColIdx (length (mat2 ! mat1ColIdx)))
         else colLoop mat1 mat2 mat1RowIdx mat2ColIdx (Suc mat1ColIdx)
                (result + mat1 ! mat1RowIdx ! mat1ColIdx * mat2 ! mat1ColIdx ! mat2ColIdx))
      else Inr result)"
  by pat_completeness auto
termination
  by (relation "measure (\<lambda>(mat1, mat2, i, j, c, r). length (mat1 ! i) - c)") auto

declare colLoop.simps [simp del]

text \<open>
  The outer loop \<^verbatim>\<open>for k := 0; k < 100; k++\<close>; \<open>n\<close> counts the rounds still to run.
  Each round reads \<^verbatim>\<open>mat1[mat1RowIdx]\<close> first.
\<close>

fun repeatLoop :: "nat \<Rightarrow> matrix \<Rightarrow> matrix \<Rightarrow> nat \<Rightarrow> nat \<Rightarrow> real \<Rightarrow> panic + real" where
  "repeatLoop 0 mat1 mat2 mat1RowIdx mat2ColIdx result = Inr result"
| "repeatLoop (Suc n) mat1 mat2 mat1RowIdx mat2ColIdx result =
     (if \<not> mat1RowIdx < length mat1 then Inl (IndexOutOfRange mat1RowIdx (length mat1))
      else (case colLoop mat1 mat2 mat1RowIdx mat2ColIdx 0 result of
              Inl p \<Rightarrow> Inl p
            | Inr result' \<Rightarrow> repeatLoop n mat1 mat2 mat1RowIdx mat2ColIdx result'))"

text \<open>The value \<open>dotProduct\<close> sends on \<open>sumCh\<close>, or the panic that stops it before.\<close>

definition dotProduct :: "matrix \<Rightarrow> matrix \<Rightarrow> nat \<Rightarrow> nat \<Rightarrow> panic + real" where
  "dotProduct mat1 mat2 mat1RowIdx mat2ColIdx = repeatLoop 100 mat1 mat2 mat1RowIdx mat2ColIdx 0"

subsection \<open>matrixMultiply: goroutines and the channel\<close>

text \<open>
  \<open>matrixMultiply\<close> runs in the calling goroutine. It starts one goroutine for each pair
  of its two nested counting loops, then receives from \<open>sumCh\<close> once for each pair of two
  more. The pairs of a nested loop are listed in the order the loop visits them.
\<close>

definition cells :: "nat \<Rightarrow> nat \<Rightarrow> (nat \<times> nat) list" where
  "cells rows cols = List.product [0..<rows] [0..<cols]"

text \<open>
  What can be observed of a run: a matrix made, the channel made, a goroutine started for
  a cell, a value sent on the channel, a value received from it, a line on standard output.
\<close>

datatype event =
  CreateMat size2
| MakeChan int
| Spawn nat nat
| Send real
| Recv real
| Println string

text \<open>
  Where the calling goroutine stands: in the spawning loops with the cells still to start,
  in the receiving loops with the iterations still to run and the value of \<^verbatim>\<open>sum\<close>, or returned.
\<close>

datatype mainpc =
  Spawning "(nat \<times> nat) list"
| Draining "(nat \<times> nat) list" real
| Done real

text \<open>
  \<open>tasks\<close> holds the started goroutines that have not sent yet, \<open>buf\<close> the buffer of
  the channel, oldest value first. A panic in any goroutine ends the process.
\<close>

record config =
  pc :: mainpc
  tasks :: "(nat \<times> nat) list"
  buf :: "real list"
  trace :: "event list"
  crashed :: "panic option"

text \<open>
  One step of the calling goroutine. A receive from an empty buffer leaves the
  configuration as it is: the goroutine is blocked.
\<close>

fun mainStep :: "nat \<Rightarrow> nat \<Rightarrow> mainpc \<Rightarrow> config \<Rightarrow> config" where
  "mainStep rows cols (Spawning []) c = c\<lparr>pc := Draining (cells rows cols) 0\<rparr>"
| "mainStep rows cols (Spawning (x # xs)) c =
     c\<lparr>pc := Spawning xs, tasks := tasks c @ [x], trace := trace c @ [Spawn (fst x) (snd x)]\<rparr>"
| "mainStep rows cols (Draining [] acc) c = c\<lparr>pc := Done acc\<rparr>"
| "mainStep rows cols (Draining (x # xs) acc) c =
     (case buf c of
        [] \<Rightarrow> c
      | v # vs \<Rightarrow> c\<lparr>pc := Draining xs (acc + v), buf := vs, trace := trace c @ [Recv v]\<rparr>)"
| "mainStep rows cols (Done acc) c = c"

text \<open>
  A send finds the calling goroutine waiting in a receive when that goroutine is in the
  receiving loops and the buffer is empty; the value then goes to it directly. This is the
  only way a send proceeds on a channel of capacity 0.
\<close>

fun handOff :: "mainpc \<Rightarrow> nat \<Rightarrow> real \<Rightarrow> config \<Rightarrow> config" where
  "handOff (Draining (x # xs) acc) k v c =
     (if buf c = [] then
        c\<lparr>pc := Draining xs (acc + v), tasks := take k (tasks c) @ drop (Suc k) (tasks c),
          trace := trace c @ [Send v, Recv v]\<rparr>
      else c)"
| "handOff p k v c = c"

text \<open>
  One step of the \<open>k\<close>-th goroutine that has not sent yet: it runs \<open>dotProduct\<close> up to
  the send. The send proceeds when the buffer has room or the receiver is waiting, and
  otherwise the goroutine is blocked. The matrices are only read, so the work before the
  send needs no steps of its own.
\<close>

definition taskStep :: "matrix \<Rightarrow> matrix \<Rightarrow> nat \<Rightarrow> nat \<Rightarrow> config \<Rightarrow> config" where
  "taskStep mat1 mat2 cap k c =
     (if \<not> k < length (tasks c) then c
      else (case dotProduct mat1 mat2 (fst (tasks c ! k)) (snd (tasks c ! k)) of
              Inl p \<Rightarrow> c\<lparr>crashed := Some p\<rparr>
            | Inr v \<Rightarrow>
                if length (buf c) < cap then
                  c\<lparr>tasks := take k (tasks c) @ drop (Suc k) (tasks c), buf := buf c @ [v],
                    trace := trace c @ [Send v]\<rparr>
                else handOff (pc c) k v c))"

text \<open>The scheduler picks the goroutine that moves next.\<close>

datatype action = Main | Task nat

fun step :: "matrix \<Rightarrow> matrix \<Rightarrow> nat \<Rightarrow> nat \<Rightarrow> nat \<Rightarrow> action \<Rightarrow> config \<Rightarrow> config" where
  "step mat1 mat2 rows cols cap Main c =
     (if crashed c \<noteq> None then c else mainStep rows cols (pc c) c)"
| "step mat1 mat2 rows cols cap (Task k) c =
     (if crashed c \<noteq> None then c else taskStep mat1 mat2 cap k c)"

fun exec :: "matrix \<Rightarrow> matrix \<Rightarrow> nat \<Rightarrow> nat \<Rightarrow> nat \<Rightarrow> action list \<Rightarrow> config \<Rightarrow> config" where
  "exec mat1 mat2 rows cols cap [] c = c"
| "exec mat1 mat2 rows cols cap (a # sched) c =
     exec mat1 mat2 rows cols cap sched (step mat1 mat2 rows cols cap a c)"

text \<open>
  How a call ends under a schedule: it returns \<^verbatim>\<open>sum\<close>, the process panics, or the schedule
  is used up with the call still running.
\<close>

datatype outcome = Result real | Crashed panic | Running

definition outcomeOf :: "config \<Rightarrow> outcome" where
  "outcomeOf c =
     (case crashed c of
        Some p \<Rightarrow> Crashed p
      | None \<Rightarrow> (case pc c of Done acc \<Rightarrow> Result acc | _ \<Rightarrow> Running))"

definition initial :: "nat \<Rightarrow> nat \<Rightarrow> config" where
  "initial rows cols =
     \<lparr>pc = Spawning (cells rows cols), tasks = [], buf = [], trace = [], crashed = None\<rparr>"

text \<open>
  \<open>matrixMultiply\<close> on a fresh channel of capacity \<open>cap\<close>, under the schedule \<open>sched\<close>,
  as the configuration it ends in. \<^verbatim>\<open>len(mat2[0])\<close> panics when \<open>mat2\<close> has no row.
\<close>

definition matrixMultiply :: "action list \<Rightarrow> matrix \<Rightarrow> matrix \<Rightarrow> nat \<Rightarrow> config" where
  "matrixMultiply sched mat1 mat2 cap =
     (case mat2 of
        [] \<Rightarrow> (initial 0 0)\<lparr>pc := Spawning [], crashed := Some (IndexOutOfRange 0 0)\<rparr>
      | row0 # _ \<Rightarrow>
          exec mat1 mat2 (length mat1) (length row0) cap sched
            (initial (length mat1) (length row0)))"

subsection \<open>createMatAndMultiply\<close>

text \<open>
  The product \<^verbatim>\<open>matAsize[0]*matBsize[1]\<close> of two 64-bit integers wraps around, and
  \<^verbatim>\<open>make\<close> panics on a negative channel size. As for slices, a size too large for the
  memory is outside the model.
\<close>

definition mul64 :: "int \<Rightarrow> int \<Rightarrow> int" where
  "mul64 a b = sint (word_of_int a * word_of_int b :: 64 word)"

definition createMatAndMultiply ::
  "(nat \<Rightarrow> real) \<Rightarrow> action list \<Rightarrow> size2 \<Rightarrow> size2 \<Rightarrow> outcome \<times> event list" where
  "createMatAndMultiply src sched matAsize matBsize =
     (case createMat src 0 matAsize of
        Inl p \<Rightarrow> (Crashed p, [CreateMat matAsize])
      | Inr (mat1, k1) \<Rightarrow>
          (case createMat src k1 matBsize of
             Inl p \<Rightarrow> (Crashed p, [CreateMat matAsize, CreateMat matBsize])
           | Inr (mat2, k2) \<Rightarrow>
               if mul64 (fst matAsize) (snd matBsize) < 0
               then (Crashed MakeChanSizeOutOfRange,
                     [CreateMat matAsize, CreateMat matBsize,
                      MakeChan (mul64 (fst matAsize) (snd matBsize))])
               else (outcomeOf
                       (matrixMultiply sched mat1 mat2 (nat (mul64 (fst matAsize) (snd matBsize)))),
                     [CreateMat matAsize, CreateMat matBsize,
                      MakeChan (mul64 (fst matAsize) (snd matBsize))]
                     @ trace
                         (matrixMultiply sched mat1 mat2
                            (nat (mul64 (fst matAsize) (snd matBsize)))))))"

subsection \<open>MatrixHandler\<close>

definition pageTop :: string where
  \<open>pageTop =
     ''<!DOCTYPE HTML><html><head>'' @ [CHR 0x0A]
     @ ''<style>.error{color:#FF0000;}.result{color:#0000FF}</style></head><title>Statistics</title>''
     @ [CHR 0x0A]
     @ ''<body><h3>Matrix multiplication</h3>'' @ [CHR 0x0A]
     @ ''<p>Computes matrix multiplication b/w 2 matrices.</p>''\<close>

definition form :: string where
  \<open>form =
     ''<form action="/homeC" method="POST">'' @ [CHR 0x0A]
     @ ''<label for="matASize">Size of matrix A  (comma or space-separated) </label><br />''
     @ [CHR 0x0A]
     @ ''<input type="text" name="matASize" size="30"><br />'' @ [CHR 0x0A]
     @ ''<label for="matBSize">Size of matrix B  (comma or space-separated) </label><br />''
     @ [CHR 0x0A]
     @ ''<input type="text" name="matBSize" size="30"><br />'' @ [CHR 0x0A]
     @ ''<input type="submit" value="Calculate">'' @ [CHR 0x0A]
     @ ''</form>''\<close>

definition pageBottom :: string where
  "pageBottom = ''</body></html>''"

definition anError :: string where
  \<open>anError = ''<p class="error">%s</p>''\<close>

text \<open>
  \<open>formatResult\<close> prints two \<^verbatim>\<open>float64\<close> values with the verb \<^verbatim>\<open>%f\<close>, whose
  rendering is the parameter \<open>ff\<close>.
\<close>

definition formatResult :: "(real \<Rightarrow> string) \<Rightarrow> real \<Rightarrow> real \<Rightarrow> string" where
  \<open>formatResult ff result timeTaken =
     ''<h4 class="result">The result is '' @ ff result @ '', time taken is '' @ ff timeTaken
     @ ''</h4>''\<close>

text \<open>\<open>timeit\<close>, with the two readings of the clock as parameters.\<close>

definition timeit :: "real \<Rightarrow> real \<Rightarrow> (size2 \<Rightarrow> size2 \<Rightarrow> 'a) \<Rightarrow> size2 \<Rightarrow> size2 \<Rightarrow> 'a \<times> real" where
  "timeit start stop function arg1 arg2 = (function arg1 arg2, stop - start)"

text \<open>
  What a request carries after \<^verbatim>\<open>ParseForm\<close>: the text of its error, if any, and the
  form values.
\<close>

record request =
  parseError :: "string option"
  Form :: form

text \<open>What the handler takes from its surroundings.\<close>

record world =
  randSrc :: "nat \<Rightarrow> real"
  schedule :: "action list"
  clockStart :: real
  clockStop :: real
  fmtF :: "real \<Rightarrow> string"

text \<open>
  How the handler ends: it returns, it panics (the server then drops the connection), or
  it is still waiting when the schedule is used up.
\<close>

datatype ending = Finished | Aborted panic | Unfinished

record response =
  body :: string
  events :: "event list"
  ending :: ending

definition MatrixHandler :: "world \<Rightarrow> request \<Rightarrow> response" where
  "MatrixHandler w request =
     (case parseError request of
        Some err \<Rightarrow>
          \<lparr>body = pageTop @ form @ Sprintf anError [S err] @ pageBottom, events = [],
           ending = Finished\<rparr>
      | None \<Rightarrow>
          if length (Form request) = 0 then
            \<lparr>body = pageTop @ form @ pageBottom,
             events = [Println ''page requested for first time''], ending = Finished\<rparr>
          else
            (case processRequest (Form request) of
               Inl p \<Rightarrow> \<lparr>body = pageTop @ form, events = [], ending = Aborted p\<rparr>
             | Inr (matrixSizes, errorMessage, ok) \<Rightarrow>
                 if ok then
                   (if fst (canMultiply (fst matrixSizes) (snd matrixSizes)) then
                      (let timed = timeit (clockStart w) (clockStop w)
                                     (createMatAndMultiply (randSrc w) (schedule w))
                                     (fst matrixSizes) (snd matrixSizes)
                       in case fst (fst timed) of
                            Result result \<Rightarrow>
                              \<lparr>body = pageTop @ form @ formatResult (fmtF w) result (snd timed)
                                      @ pageBottom,
                               events = snd (fst timed), ending = Finished\<rparr>
                          | Crashed p \<Rightarrow>
                              \<lparr>body = pageTop @ form, events = snd (fst timed),
                               ending = Aborted p\<rparr>
                          | Running \<Rightarrow>
                              \<lparr>body = pageTop @ form, events = snd (fst timed),
                               ending = Unfinished\<rparr>)
                    else
                      \<lparr>body = pageTop @ form
                              @ Sprintf anError
                                  [S (snd (canMultiply (fst matrixSizes) (snd matrixSizes)))]
                              @ pageBottom,
                       events = [], ending = Finished\<rparr>)
                 else
                   \<lparr>body = pageTop @ form @ Sprintf anError [S errorMessage] @ pageBottom,
                    events = [], ending = Finished\<rparr>))"

subsection \<open>Predicates and inputs used in the statements\<close>

text \<open>
  A field value that is not empty and whose tokens are all integers for \<open>Atoi\<close>.
\<close>

definition intTokens :: "string \<Rightarrow> bool" where
  "intTokens s = (s \<noteq> [] \<and> list_all (\<lambda>t. Atoi t \<noteq> None) (sizeValues s))"

text \<open>A source of random numbers that yields the same number every time.\<close>

definition constSrc :: "real \<Rightarrow> nat \<Rightarrow> real" where
  "constSrc x n = x"


definition rowTimesCol :: "matrix \<Rightarrow> matrix \<Rightarrow> nat \<Rightarrow> nat \<Rightarrow> real" where
  "rowTimesCol A B i j = (\<Sum>k<length B. A ! i ! k * B ! k ! j)"

text \<open>The value the cell task of a coordinate sends: a hundred times the dot product.\<close>

definition cellValue :: "matrix \<Rightarrow> matrix \<Rightarrow> nat \<times> nat \<Rightarrow> real" where
  "cellValue A B x = 100 * rowTimesCol A B (fst x) (snd x)"

text \<open>
  The trace of a run, read three ways: the cells for which a goroutine was started, the
  values sent on the channel and the values received from it, each in order of occurrence.
\<close>

fun spawned :: "event list \<Rightarrow> (nat \<times> nat) list" where
  "spawned [] = []"
| "spawned (Spawn i j # es) = (i, j) # spawned es"
| "spawned (e # es) = spawned es"

fun sent :: "event list \<Rightarrow> real list" where
  "sent [] = []"
| "sent (Send v # es) = v # sent es"
| "sent (e # es) = sent es"

fun received :: "event list \<Rightarrow> real list" where
  "received [] = []"
| "received (Recv v # es) = v # received es"
| "received (e # es) = received es"

text \<open>
  The invariant of a run of \<open>matrixMultiply\<close>. It relates the position of the calling
  goroutine to the trace: the cells started so far and those still to start make up the
  cell list, every started goroutine has sent or is still in \<open>tasks\<close>, every value sent
  has been received or is still in \<open>buf\<close>, the receives done and those still to do add
  up to the number of cells, and the values are all accounted for.
\<close>

fun toSpawn :: "mainpc \<Rightarrow> (nat \<times> nat) list" where
  "toSpawn (Spawning xs) = xs"
| "toSpawn (Draining ds a) = []"
| "toSpawn (Done a) = []"

fun toDrain :: "nat \<Rightarrow> mainpc \<Rightarrow> nat" where
  "toDrain n (Spawning xs) = n"
| "toDrain n (Draining ds a) = length ds"
| "toDrain n (Done a) = 0"

fun accOf :: "mainpc \<Rightarrow> real" where
  "accOf (Spawning xs) = 0"
| "accOf (Draining ds a) = a"
| "accOf (Done a) = a"

definition runInv :: "matrix \<Rightarrow> matrix \<Rightarrow> nat \<Rightarrow> nat \<Rightarrow> config \<Rightarrow> bool" where
  "runInv A B rows cols c \<longleftrightarrow>
     crashed c = None
     \<and> set (tasks c) \<subseteq> set (cells rows cols)
     \<and> spawned (trace c) @ toSpawn (pc c) = cells rows cols
     \<and> length (spawned (trace c)) = length (sent (trace c)) + length (tasks c)
     \<and> length (sent (trace c)) = length (received (trace c)) + length (buf c)
     \<and> length (received (trace c)) + toDrain (length (cells rows cols)) (pc c)
         = length (cells rows cols)
     \<and> accOf (pc c) + sum_list (buf c) + sum_list (map (cellValue A B) (tasks c))
         + sum_list (map (cellValue A B) (toSpawn (pc c)))
         = sum_list (map (cellValue A B) (cells rows cols))
     \<and> accOf (pc c) = sum_list (received (trace c))
     \<and> mset (received (trace c)) + mset (buf c) + mset (map (cellValue A B) (tasks c))
         + mset (map (cellValue A B) (toSpawn (pc c)))
         = mset (map (cellValue A B) (cells rows cols))"

text \<open>A measure that every step that changes the configuration decreases.\<close>

fun pcWeight :: "nat \<Rightarrow> mainpc \<Rightarrow> nat" where
  "pcWeight n (Spawning xs) = 3 * length xs + n + 2"
| "pcWeight n (Draining ds a) = length ds + 1"
| "pcWeight n (Done a) = 0"

definition weight :: "nat \<Rightarrow> config \<Rightarrow> nat" where
  "weight n c = pcWeight n (pc c) + 2 * length (tasks c) + length (buf c)"

text \<open>
  Two schedules for the examples: one for a channel with a buffer, one for a channel of
  capacity 0, where every value is handed to the waiting receiver; and surroundings for the
  handler.
\<close>

definition demoSched :: "action list" where
  "demoSched = [Main, Main, Task 1, Main, Task 0, Main, Main, Main, Task 1, Main, Main, Task 0, Main, Main]"


definition demoWorld :: world where
  "demoWorld = \<lparr>randSrc = constSrc (1 / 2), schedule = demoSched, clockStart = 0, clockStop = 1,
                 fmtF = (\<lambda>x. ''?'')\<rparr>"

section \<open>Properties\<close>

subsection \<open>Reading and printing integers\<close>

text \<open>
  The two library models agree: what \<^verbatim>\<open>%d\<close> prints for a 64-bit integer, \<open>Atoi\<close>
  reads back as that integer.
\<close>

lemma digit_cases: "d < 10 \<Longrightarrow> d \<in> {0, 1, 2, 3, 4, 5, 6, 7, 8, 9 :: nat}"
  by auto

lemma digitVal_digitChar: "d < 10 \<Longrightarrow> digitVal (digitChar d) = Some d"
  using digit_cases [of d] by (auto simp: digitVal_def digitChar_def)

lemma digitChar_no_sign: "d < 10 \<Longrightarrow> digitChar d \<noteq> CHR ''-'' \<and> digitChar d \<noteq> CHR ''+''"
  using digit_cases [of d] by (auto simp: digitChar_def)

lemma digitsVal_append:
  "digitsVal acc (xs @ ys) = (case digitsVal acc xs of None \<Rightarrow> None | Some m \<Rightarrow> digitsVal m ys)"
  by (induction xs arbitrary: acc) (simp_all split: option.splits)

lemma digitsVal_natDigits: "digitsVal 0 (natDigits n) = Some n"
proof (induction n rule: natDigits.induct)
  case (1 n)
  show ?case
  proof (cases "n < 10")
    case True
    then show ?thesis by (subst natDigits.simps) (simp add: digitVal_digitChar)
  next
    case False
    have "digitsVal 0 (natDigits n)
            = digitsVal 0 (natDigits (n div 10) @ [digitChar (n mod 10)])"
      using False by (subst natDigits.simps) simp
    also have "\<dots> = Some (n div 10 * 10 + n mod 10)"
      using "1.IH" [OF False] by (simp add: digitsVal_append digitVal_digitChar)
    finally show ?thesis by simp
  qed
qed

lemma natDigits_head: "\<exists>d r. d < 10 \<and> natDigits n = digitChar d # r"
proof (induction n rule: natDigits.induct)
  case (1 n)
  show ?case
  proof (cases "n < 10")
    case True
    then show ?thesis by (subst natDigits.simps) auto
  next
    case False
    from "1.IH" [OF False] obtain d r where "d < 10" and "natDigits (n div 10) = digitChar d # r"
      by blast
    with False show ?thesis by (subst natDigits.simps) auto
  qed
qed

lemma Atoi_fmtD:
  assumes "- (2 ^ 63) \<le> n" and "n < 2 ^ 63"
  shows "Atoi (fmtD n) = Some n"
proof (cases "n < 0")
  case True
  obtain d r where "natDigits (nat (- n)) = digitChar d # r"
    using natDigits_head by blast
  then have ne: "natDigits (nat (- n)) \<noteq> []" by simp
  with True assms show ?thesis
    by (simp add: Atoi_def fmtD_def digitsVal_natDigits del: natDigits.simps)
next
  case False
  obtain d r where d: "d < 10" and e: "natDigits (nat n) = digitChar d # r"
    using natDigits_head by blast
  from digitsVal_natDigits [of "nat n"] e have v: "digitsVal 0 (digitChar d # r) = Some (nat n)"
    by simp
  from False assms digitChar_no_sign [OF d] show ?thesis
    unfolding Atoi_def fmtD_def by (simp add: e v del: natDigits.simps digitsVal.simps)
qed

subsection \<open>canMultiply\<close>

text \<open>
  C4. For every pair of dimensions, \<open>canMultiply\<close> succeeds exactly when the columns of
  the first equal the rows of the second, and when it fails its message is
  "matrix with size R1 * C1 cannot be multiplied with matrix of size R2 * C2" with the four
  numbers in decimal.
\<close>

theorem canMultiply_spec:
  "(fst (canMultiply dimA dimB) \<longleftrightarrow> snd dimA = fst dimB) \<and>
   (snd dimA \<noteq> fst dimB \<longrightarrow>
      snd (canMultiply dimA dimB) =
        ''matrix with size '' @ fmtD (fst dimA) @ '' * '' @ fmtD (snd dimA)
        @ '' cannot be multiplied with matrix of size '' @ fmtD (fst dimB) @ '' * ''
        @ fmtD (snd dimB))"
  by (simp add: canMultiply_def)

theorem canMultiply_spec_witness:
  "\<not> fst (canMultiply (2, 3) (4, 2)) \<and>
   snd (canMultiply (2, 3) (4, 2)) =
     ''matrix with size 2 * 3 cannot be multiplied with matrix of size 4 * 2''"
  using canMultiply_spec [of "(2, 3)" "(4, 2)"]
  by (simp add: fmtD_def digitChar_def)

subsection \<open>createMat\<close>






lemma createMat_negative_rows:
  "rows < 0 \<Longrightarrow> createMat src k (rows, cols) = Inl MakeSliceLenOutOfRange"
  by (simp add: createMat_def makeSlice_def)

lemma createMat_negative_cols:
  "0 < rows \<Longrightarrow> cols < 0 \<Longrightarrow> createMat src k (rows, cols) = Inl MakeSliceLenOutOfRange"
  by (subst createMat_def, simp add: makeSlice_def, subst fillMat.simps, simp add: makeSlice_def)



subsection \<open>processRequest\<close>

text \<open>The token loop on two tokens, on three or more, and on a token that is no integer.\<close>

lemma tokenLoop_two_A:
  assumes "Atoi t0 = Some v0" and "Atoi t1 = Some v1"
  shows "tokenLoop 0 0 [t0, t1] matSizes = Next ((v0, v1), snd matSizes)"
  using assms by (simp add: setSize_def setAt_def)


lemma tokenLoop_three:
  assumes "Atoi t0 = Some v0" and "Atoi t1 = Some v1" and "Atoi t2 = Some v2"
  shows "tokenLoop matID 0 (t0 # t1 # t2 # ts) matSizes = Panicked (IndexOutOfRange 2 2)"
  using assms by (simp add: setSize_def setAt_def)

lemma tokenLoop_invalid:
  assumes "Atoi t = None" and "list_all (\<lambda>u. Atoi u \<noteq> None) pre" and "length pre \<le> 2"
  shows "\<exists>matSizes'. tokenLoop matID 0 (pre @ t # post) matSizes =
           Returned matSizes' (t @ '' is an invalid input'') False"
proof (cases pre)
  case Nil
  then show ?thesis using assms(1) by (simp del: split_paired_Ex)
next
  case (Cons u0 pre')
  note c0 = this
  from assms(2) c0 obtain v0 where v0: "Atoi u0 = Some v0" by auto
  obtain m0 where m0: "setSize matSizes matID 0 v0 = Inr m0"
    by (cases "matID = 0") (simp_all add: setSize_def setAt_def)
  show ?thesis
  proof (cases pre')
    case Nil
    then show ?thesis using assms(1) c0 v0 m0 by (simp del: split_paired_Ex)
  next
    case (Cons u1 pre'')
    with assms(3) c0 have p: "pre = [u0, u1]" by simp
    from assms(2) p obtain v1 where v1: "Atoi u1 = Some v1" by auto
    obtain m1 where m1: "setSize m0 matID 1 v1 = Inr m1"
      by (cases "matID = 0") (simp_all add: setSize_def setAt_def)
    show ?thesis using assms(1) p v0 v1 m0 m1 by (simp del: split_paired_Ex)
  qed
qed

lemma fieldLoop_A:
  assumes "map_of frm ''matASize'' = Some (sA # moreA)" and "sA \<noteq> []"
    and "2 \<le> length (sizeValues sA)"
  shows "fieldLoop frm [(0, ''matASize''), (1, ''matBSize'')] ms =
    (case tokenLoop 0 0 (sizeValues sA) ms of
       Next ms' \<Rightarrow> fieldLoop frm [(1, ''matBSize'')] ms'
     | Returned a b c \<Rightarrow> Returned a b c | Panicked p \<Rightarrow> Panicked p)"
  using assms by (simp split: ctl.splits)

lemma fieldLoop_B:
  assumes "map_of frm ''matBSize'' = Some (sB # moreB)" and "sB \<noteq> []"
    and "2 \<le> length (sizeValues sB)"
  shows "fieldLoop frm [(1, ''matBSize'')] ms =
    (case tokenLoop 1 0 (sizeValues sB) ms of
       Next ms' \<Rightarrow> Next ms'
     | Returned a b c \<Rightarrow> Returned a b c | Panicked p \<Rightarrow> Panicked p)"
  using assms by (simp split: ctl.splits)

lemma two_tokens:
  assumes "length ts = 2" and "list_all (\<lambda>t. Atoi t \<noteq> None) ts"
  obtains t0 t1 v0 v1 where "ts = [t0, t1]" and "Atoi t0 = Some v0" and "Atoi t1 = Some v1"
proof -
  from assms(1) obtain t0 t1 where ts: "ts = [t0, t1]"
    by (cases ts; simp) (metis length_0_conv length_Suc_conv)
  with assms(2) obtain v0 v1 where "Atoi t0 = Some v0" and "Atoi t1 = Some v1" by auto
  with ts show ?thesis using that by blast
qed

lemma three_tokens:
  assumes "3 \<le> length ts" and "list_all (\<lambda>t. Atoi t \<noteq> None) ts"
  obtains t0 t1 t2 rest v0 v1 v2
  where "ts = t0 # t1 # t2 # rest" and "Atoi t0 = Some v0" and "Atoi t1 = Some v1"
    and "Atoi t2 = Some v2"
proof -
  from assms(1) obtain t0 t1 t2 rest where ts: "ts = t0 # t1 # t2 # rest"
    by (cases ts; simp) (metis Suc_le_length_iff numeral_2_eq_2)
  with assms(2) obtain v0 v1 v2 where "Atoi t0 = Some v0" and "Atoi t1 = Some v1"
    and "Atoi t2 = Some v2" by auto
  with ts show ?thesis using that by blast
qed

text \<open>
  C10. There are inputs in which a size field splits into three or more tokens that all
  parse as integers, and on each of them \<open>processRequest\<close> writes to index 2 of a
  two-element array: it panics and returns neither a success nor an error result. This holds
  for the first field, and for the second field when the first has exactly two integer
  tokens.
\<close>

theorem processRequest_third_token_panics:
  assumes "map_of frm ''matASize'' = Some (sA # moreA)" and "intTokens sA"
    and "3 \<le> length (sizeValues sA)
         \<or> (length (sizeValues sA) = 2 \<and> map_of frm ''matBSize'' = Some (sB # moreB)
            \<and> intTokens sB \<and> 3 \<le> length (sizeValues sB))"
  shows "processRequest frm = Inl (IndexOutOfRange 2 2)"
  using assms(3)
proof
  assume len: "3 \<le> length (sizeValues sA)"
  from assms(2) have ints: "list_all (\<lambda>t. Atoi t \<noteq> None) (sizeValues sA)" and ne: "sA \<noteq> []"
    by (simp_all add: intTokens_def)
  from three_tokens [OF len ints] obtain t0 t1 t2 rest v0 v1 v2
    where ts: "sizeValues sA = t0 # t1 # t2 # rest"
      and v: "Atoi t0 = Some v0" "Atoi t1 = Some v1" "Atoi t2 = Some v2" by metis
  have e: "fieldLoop frm [(0, ''matASize''), (1, ''matBSize'')] ((0, 0), (0, 0)) =
          (case tokenLoop 0 0 (sizeValues sA) ((0, 0), (0, 0)) of
             Next ms' \<Rightarrow> fieldLoop frm [(1, ''matBSize'')] ms'
           | Returned a b c \<Rightarrow> Returned a b c | Panicked p \<Rightarrow> Panicked p)"
    by (rule fieldLoop_A [OF assms(1) ne]) (use len in simp)
  show ?thesis
    unfolding processRequest_def e ts tokenLoop_three [OF v] by simp
next
  assume b: "length (sizeValues sA) = 2 \<and> map_of frm ''matBSize'' = Some (sB # moreB)
            \<and> intTokens sB \<and> 3 \<le> length (sizeValues sB)"
  from assms(2) have intsA: "list_all (\<lambda>t. Atoi t \<noteq> None) (sizeValues sA)" and neA: "sA \<noteq> []"
    by (simp_all add: intTokens_def)
  from b have intsB: "list_all (\<lambda>t. Atoi t \<noteq> None) (sizeValues sB)" and neB: "sB \<noteq> []"
    and lenB: "3 \<le> length (sizeValues sB)" and mB: "map_of frm ''matBSize'' = Some (sB # moreB)"
    and lenA: "length (sizeValues sA) = 2"
    by (simp_all add: intTokens_def)
  from two_tokens [OF lenA intsA] obtain a0 a1 x0 x1
    where tsA: "sizeValues sA = [a0, a1]" and x: "Atoi a0 = Some x0" "Atoi a1 = Some x1"
    by metis
  from three_tokens [OF lenB intsB] obtain t0 t1 t2 rest v0 v1 v2
    where ts: "sizeValues sB = t0 # t1 # t2 # rest"
      and v: "Atoi t0 = Some v0" "Atoi t1 = Some v1" "Atoi t2 = Some v2" by metis
  have eA: "fieldLoop frm [(0, ''matASize''), (1, ''matBSize'')] ((0, 0), (0, 0)) =
          (case tokenLoop 0 0 (sizeValues sA) ((0, 0), (0, 0)) of
             Next ms' \<Rightarrow> fieldLoop frm [(1, ''matBSize'')] ms'
           | Returned a b c \<Rightarrow> Returned a b c | Panicked p \<Rightarrow> Panicked p)"
    by (rule fieldLoop_A [OF assms(1) neA]) (use lenA in simp)
  have eB: "fieldLoop frm [(1, ''matBSize'')] ((x0, x1), (0, 0)) =
          (case tokenLoop 1 0 (sizeValues sB) ((x0, x1), (0, 0)) of
             Next ms' \<Rightarrow> Next ms'
           | Returned a b c \<Rightarrow> Returned a b c | Panicked p \<Rightarrow> Panicked p)"
    by (rule fieldLoop_B [OF mB neB]) (use lenB in simp)
  show ?thesis
    unfolding processRequest_def eA tsA tokenLoop_two_A [OF x]
    by (simp only: eB ts tokenLoop_three [OF v] ctl.case if_True fst_conv snd_conv sum.case)
qed

lemmas eval_fields = sizeValues_def Fields_def Replace_def flush_def asciiSpace_def Atoi_def digitVal_def

theorem processRequest_third_token_panics_witness:
  "processRequest [(''matASize'', [''1 2 3'']), (''matBSize'', [''3 4''])] = Inl (IndexOutOfRange 2 2)
   \<and> processRequest [(''matASize'', [''5,6'']), (''matBSize'', [''6 7 8 9''])]
       = Inl (IndexOutOfRange 2 2)"
proof
  show "processRequest [(''matASize'', [''1 2 3'']), (''matBSize'', [''3 4''])]
          = Inl (IndexOutOfRange 2 2)"
    by (rule processRequest_third_token_panics [where sA = "''1 2 3''" and moreA = "[]"])
       (simp_all add: intTokens_def eval_fields)
  show "processRequest [(''matASize'', [''5,6'']), (''matBSize'', [''6 7 8 9''])]
          = Inl (IndexOutOfRange 2 2)"
    by (rule processRequest_third_token_panics
          [where sA = "''5,6''" and moreA = "[]" and sB = "''6 7 8 9''" and moreB = "[]"])
       (simp_all add: intTokens_def eval_fields)
qed










lemma processRequest_absent_matASize:
  "map_of frm ''matASize'' = None \<Longrightarrow> processRequest frm = Inl (IndexOutOfRange 0 0)"
  by (simp add: processRequest_def)

lemma processRequest_empty_matASize:
  "map_of frm ''matASize'' = Some ([] # others) \<Longrightarrow>
     processRequest frm = Inr (((0, 0), (0, 0)), ''2 numbers needed, 0 received'', False)"
  by (simp add: processRequest_def)

lemma processRequest_short_matASize:
  "map_of frm ''matASize'' = Some (s # others) \<Longrightarrow> s \<noteq> [] \<Longrightarrow> length (sizeValues s) < 2 \<Longrightarrow>
     processRequest frm = Inr (((0, 0), (0, 0)), ''2 numbers needed, only 1 received'', False)"
  by (simp add: processRequest_def)

text \<open>
  C6. A request without the field matASize should get the error "2 numbers needed, 0
  received"; \<open>processRequest\<close> reads \<^verbatim>\<open>slice[0]\<close> before it looks at \<open>found\<close> and
  panics instead. The lemmas \<open>processRequest_empty_matASize\<close> and
  \<open>processRequest_short_matASize\<close> show the error results the claim states for a field
  that is present: empty, or with fewer than two tokens.
\<close>

theorem processRequest_absent_field_panics:
  "processRequest [(''matBSize'', [''2 3''])] = Inl (IndexOutOfRange 0 0)"
  by (rule processRequest_absent_matASize) simp

lemma processRequest_invalid_token:
  assumes "map_of frm ''matASize'' = Some (sA # moreA)" and "sA \<noteq> []"
    and "sizeValues sA = pre @ t # post" and "2 \<le> length (sizeValues sA)"
    and "list_all (\<lambda>u. Atoi u \<noteq> None) pre" and "length pre \<le> 2" and "Atoi t = None"
  shows "\<exists>matSizes. processRequest frm = Inr (matSizes, t @ '' is an invalid input'', False)"
proof -
  let ?init = "((0, 0), (0, 0)) :: sizes"
  from tokenLoop_invalid [OF assms(7,5,6), of 0 post ?init] obtain ms where
    t: "tokenLoop 0 0 (pre @ t # post) ?init = Returned ms (t @ '' is an invalid input'') False"
    by blast
  have e: "fieldLoop frm [(0, ''matASize''), (1, ''matBSize'')] ?init =
          (case tokenLoop 0 0 (sizeValues sA) ?init of
             Next ms' \<Rightarrow> fieldLoop frm [(1, ''matBSize'')] ms'
           | Returned a b c \<Rightarrow> Returned a b c | Panicked p \<Rightarrow> Panicked p)"
    by (rule fieldLoop_A [OF assms(1,2,4)])
  show ?thesis
    unfolding processRequest_def e assms(3) t by (simp del: split_paired_Ex)
qed

text \<open>
  C7. The string "1 2 3 x" splits into four tokens and "x" is not an integer, so the result
  should be the error "x is an invalid input"; \<open>processRequest\<close> panics on the third
  token before it reaches "x". The lemma \<open>processRequest_invalid_token\<close> shows the
  stated error when the first token that is not an integer is among the first three.
\<close>

theorem processRequest_fourth_token_unreported:
  "sizeValues ''1 2 3 x'' = [''1'', ''2'', ''3'', ''x''] \<and> Atoi ''x'' = None
   \<and> processRequest [(''matASize'', [''1 2 3 x'']), (''matBSize'', [''3 4''])]
       = Inl (IndexOutOfRange 2 2)"
  by (simp add: processRequest_def eval_fields setSize_def setAt_def)

subsection \<open>dotProduct\<close>






subsection \<open>matrixMultiply\<close>

lemma spawned_append [simp]: "spawned (es @ fs) = spawned es @ spawned fs"
  by (induction es rule: spawned.induct) simp_all

lemma sent_append [simp]: "sent (es @ fs) = sent es @ sent fs"
  by (induction es rule: sent.induct) simp_all

lemma received_append [simp]: "received (es @ fs) = received es @ received fs"
  by (induction es rule: received.induct) simp_all















text \<open>
  Every step that changes the configuration decreases the measure, so a run has at most
  \<open>weight\<close> of the initial configuration many such steps: no goroutine can go on for ever.
\<close>

lemma step_decreases:
  assumes "runInv A B rows cols c"
    and ok: "\<forall>x \<in> set (cells rows cols). dotProduct A B (fst x) (snd x) = Inr (cellValue A B x)"
    and "step A B rows cols cap act c \<noteq> c"
  shows "weight (length (cells rows cols)) (step A B rows cols cap act c)
           < weight (length (cells rows cols)) c"
proof (cases act)
  case Main
  from assms(1) have nc: "crashed c = None" by (simp add: runInv_def)
  show ?thesis
  proof (cases "pc c")
    case (Spawning xs)
    with Main nc show ?thesis by (cases xs) (simp_all add: weight_def)
  next
    case (Draining ds a)
    show ?thesis
    proof (cases ds)
      case Nil
      with Draining Main nc show ?thesis by (simp add: weight_def)
    next
      case (Cons d ds')
      with Draining Main nc assms(3) show ?thesis
        by (cases "buf c") (simp_all add: weight_def)
    qed
  next
    case (Done a)
    with Main nc assms(3) show ?thesis by simp
  qed
next
  case (Task k)
  from assms(1) have nc: "crashed c = None" by (simp add: runInv_def)
  show ?thesis
  proof (cases "k < length (tasks c)")
    case False
    with Task nc assms(3) show ?thesis by (simp add: taskStep_def)
  next
    case True
    with assms(1) have "tasks c ! k \<in> set (cells rows cols)" by (auto simp: runInv_def)
    with ok have dp: "dotProduct A B (fst (tasks c ! k)) (snd (tasks c ! k))
                        = Inr (cellValue A B (tasks c ! k))" by blast
    show ?thesis
    proof (cases "length (buf c) < cap")
      case room: True
      with True dp Task nc show ?thesis by (simp add: taskStep_def weight_def)
    next
      case full: False
      have st: "step A B rows cols cap act c = handOff (pc c) k (cellValue A B (tasks c ! k)) c"
        using True dp full Task nc by (simp add: taskStep_def)
      show ?thesis
      proof (cases "pc c")
        case (Spawning xs)
        with st assms(3) show ?thesis by simp
      next
        case (Done a)
        with st assms(3) show ?thesis by simp
      next
        case (Draining ds a)
        show ?thesis
        proof (cases ds)
          case Nil
          with Draining st assms(3) show ?thesis by simp
        next
          case (Cons d ds')
          show ?thesis
          proof (cases "buf c = []")
            case False
            with Cons Draining st assms(3) show ?thesis by simp
          next
            case empty: True
            with Cons Draining True show ?thesis
              unfolding st by (simp add: weight_def)
          qed
        qed
      qed
    qed
  qed
qed






text \<open>
  When \<open>B\<close> has no row, \<^verbatim>\<open>len(mat2[0])\<close> panics before any goroutine is started. The
  statements below are for a \<open>B\<close> with at least one row.
\<close>

lemma matrixMultiply_no_rows:
  "outcomeOf (matrixMultiply sched A [] cap) = Crashed (IndexOutOfRange 0 0)
   \<and> trace (matrixMultiply sched A [] cap) = []"
  by (simp add: matrixMultiply_def outcomeOf_def initial_def)



lemma demo_run:
  "outcomeOf (matrixMultiply demoSched [[1], [2]] [[3, 4]] 2) = Result 2100"
  by code_simp




subsection \<open>MatrixHandler\<close>

lemma Sprintf_anError: \<open>Sprintf anError [S msg] = ''<p class="error">'' @ msg @ ''</p>''\<close>
  by (simp add: anError_def)

text \<open>
  C9. For every request on which \<open>processRequest\<close> returns an error result (too few
  numbers, or a token that is not an integer) or \<open>canMultiply\<close> fails, the handler writes
  the page with the error message and does nothing else: no matrix is created, no channel
  is made and no goroutine is started.
\<close>

theorem MatrixHandler_invalid_input:
  assumes "parseError request = None" and "Form request \<noteq> []"
    and "processRequest (Form request) = Inr (matrixSizes, errorMessage, ok)"
    and "\<not> ok \<or> \<not> fst (canMultiply (fst matrixSizes) (snd matrixSizes))"
  shows \<open>events (MatrixHandler w request) = []
         \<and> ending (MatrixHandler w request) = Finished
         \<and> body (MatrixHandler w request) =
             pageTop @ form @ ''<p class="error">''
             @ (if ok then snd (canMultiply (fst matrixSizes) (snd matrixSizes)) else errorMessage)
             @ ''</p>'' @ pageBottom\<close>
  using assms by (auto simp: MatrixHandler_def Sprintf_anError)

text \<open>
  A panic in \<open>processRequest\<close> ends the handler after the top of the page and the form,
  also before any matrix is made.
\<close>

lemma MatrixHandler_panic:
  assumes "parseError request = None" and "Form request \<noteq> []"
    and "processRequest (Form request) = Inl p"
  shows "MatrixHandler w request = \<lparr>body = pageTop @ form, events = [], ending = Aborted p\<rparr>"
  using assms by (simp add: MatrixHandler_def)

theorem MatrixHandler_invalid_input_witness:
  \<open>events (MatrixHandler demoWorld
             \<lparr>parseError = None, Form = [(''matASize'', [''2 3'']), (''matBSize'', [''4 2''])]\<rparr>) = []
   \<and> body (MatrixHandler demoWorld
             \<lparr>parseError = None, Form = [(''matASize'', [''2 3'']), (''matBSize'', [''4 2''])]\<rparr>)
       = pageTop @ form
         @ ''<p class="error">matrix with size 2 * 3 cannot be multiplied with matrix of size 4 * 2</p>''
         @ pageBottom
   \<and> events (MatrixHandler demoWorld
             \<lparr>parseError = None, Form = [(''matASize'', [''5'']), (''matBSize'', [''4 2''])]\<rparr>) = []
   \<and> body (MatrixHandler demoWorld
             \<lparr>parseError = None, Form = [(''matASize'', [''5'']), (''matBSize'', [''4 2''])]\<rparr>)
       = pageTop @ form @ ''<p class="error">2 numbers needed, only 1 received</p>''
         @ pageBottom\<close>
proof -
  let ?r1 = "\<lparr>parseError = None, Form = [(''matASize'', [''2 3'']), (''matBSize'', [''4 2''])]\<rparr>"
  let ?r2 = "\<lparr>parseError = None, Form = [(''matASize'', [''5'']), (''matBSize'', [''4 2''])]\<rparr>"
  have p1: "processRequest (Form ?r1) = Inr (((2, 3), (4, 2)), '''', True)"
    by (simp add: processRequest_def eval_fields setSize_def setAt_def)
  have c1: "canMultiply (2, 3) (4, 2)
              = (False, ''matrix with size 2 * 3 cannot be multiplied with matrix of size 4 * 2'')"
    by (simp add: canMultiply_def fmtD_def digitChar_def)
  have p2: "processRequest (Form ?r2)
              = Inr (((0, 0), (0, 0)), ''2 numbers needed, only 1 received'', False)"
    by (simp add: processRequest_def eval_fields)
  from MatrixHandler_invalid_input [of ?r1 "((2, 3), (4, 2))" "''''" True demoWorld, OF _ _ p1]
    MatrixHandler_invalid_input [of ?r2 "((0, 0), (0, 0))" "''2 numbers needed, only 1 received''"
      False demoWorld, OF _ _ p2]
  show ?thesis by (simp add: c1)
qed

lemma MatrixHandler_success_demo:
  "events (MatrixHandler demoWorld
             \<lparr>parseError = None, Form = [(''matASize'', [''2 1'']), (''matBSize'', [''1 2''])]\<rparr>)
   = [CreateMat (2, 1), CreateMat (1, 2), MakeChan 4, Spawn 0 0, Spawn 0 1, Send 25000000,
      Spawn 1 0, Send 25000000, Spawn 1 1, Recv 25000000, Send 25000000, Recv 25000000,
      Recv 25000000, Send 25000000, Recv 25000000]"
  by code_simp

end
